theory Spec2Isabelle
  imports Complex_Main
begin

section \<open>Video concatenation with transitions (services/v1/video/concatenate.py)\<close>

text \<open>
  The module builds a filter graph with the ffmpeg-python bindings and hands it to the
  external ffmpeg engine. The embedding keeps the graph as a term, the Python exceptions
  as values of a sum type, and the collaborators (download, probe, engine run, abspath,
  the storage root) as fields of an environment record. Seconds are exact rationals.
\<close>

subsection \<open>Exceptions\<close>

datatype error =
    ValueError string
  | TypeError
  | AttributeError
  | KeyError
  | IndexError
  | ZeroDivisionError
  | FileNotFoundError
  | ProbeFailed
  | DownloadFailed
  | EngineFailed

definition bind :: "error + 'a \<Rightarrow> ('a \<Rightarrow> error + 'b) \<Rightarrow> error + 'b" where
  "bind m f = (case m of Inl e \<Rightarrow> Inl e | Inr x \<Rightarrow> f x)"

subsection \<open>The filter graph of the bindings\<close>

text \<open>
  A stream handle of the bindings is an upstream node together with an optional selector
  (\<open>None\<close>, \<open>'v'\<close> or \<open>'a'\<close>). Every node built by this module has one output label, so
  labels are left out. The filter nodes carry the keyword arguments the source passes:
  \<open>Trim start_time duration\<close>, \<open>Fade type start_time duration\<close>, \<open>AMix inputs duration\<close>
  and \<open>Concat v a n\<close>, where \<open>n\<close> is the segment count the bindings compute.
\<close>

datatype node =
    InputNode string
  | Trim "rat option" "rat option" stream
  | ATrim "rat option" "rat option" stream
  | Fade string rat rat stream
  | AFade string rat rat stream
  | Overlay stream stream
  | AMix int string stream stream
  | Concat int int int stream stream
and stream = Stream node "string option"

text \<open>
  The values a builder receives or returns: a stream handle, or a Python dict with the
  keys \<open>'video'\<close> and \<open>'audio'\<close>.
\<close>

datatype pyobj = PStream stream | PDict stream stream

text \<open>\<open>ffmpeg.input(file)\<close>: an input node whose kwargs hold the filename.\<close>

definition ffmpeg_input :: "string \<Rightarrow> pyobj" where
  "ffmpeg_input file = PStream (Stream (InputNode file) None)"

text \<open>
  \<open>x.video\<close> and \<open>x.audio\<close> are \<open>x['v']\<close> and \<open>x['a']\<close> on a stream handle: they raise
  ValueError when the handle already has a selector. A dict has no such attribute.
\<close>

fun select :: "string \<Rightarrow> pyobj \<Rightarrow> error + stream" where
  "select s (PDict v a) = Inl AttributeError"
| "select s (PStream (Stream n None)) = Inr (Stream n (Some s))"
| "select s (PStream (Stream n (Some t))) = Inl (ValueError ''Stream already has a selector'')"

definition video :: "pyobj \<Rightarrow> error + stream" where
  "video x = select ''v'' x"

definition audio :: "pyobj \<Rightarrow> error + stream" where
  "audio x = select ''a'' x"

text \<open>
  \<open>ffmpeg.concat(x, y, v=.., a=..)\<close> of the bindings, for two operands: the operands are
  grouped into segments of \<open>v + a\<close> streams each, so \<open>n = 2 / (v + a)\<close>; an operand count
  that is no multiple of \<open>v + a\<close> raises ValueError, and the node constructor raises
  TypeError for an operand that is not a stream handle.
\<close>

definition ffmpeg_concat :: "pyobj \<Rightarrow> pyobj \<Rightarrow> int \<Rightarrow> int \<Rightarrow> error + stream" where
  "ffmpeg_concat x y v a =
     (if v + a = 0 then Inl ZeroDivisionError
      else if 2 mod (v + a) \<noteq> 0 then Inl (ValueError ''Expected concat input streams to have length multiple'')
      else (case (x, y) of
              (PStream s1, PStream s2) \<Rightarrow> Inr (Stream (Concat v a (2 div (v + a)) s1 s2) None)
            | _ \<Rightarrow> Inl TypeError))"

subsection \<open>Collaborators\<close>

text \<open>
  What the module imports and does not define: the storage root \<open>LOCAL_STORAGE_PATH\<close>,
  \<open>download_file\<close>, \<open>ffmpeg.probe\<close> followed by
  \<open>float(probe['format']['duration'])\<close>, \<open>os.path.abspath\<close>, and the engine run, which
  maps the set of existing files to a new one or fails.
\<close>

text \<open>
  The two engine invocations of the module: \<open>ConcatCopy list out\<close> is
  \<open>ffmpeg.input(list, format='concat', safe=0).output(out, c='copy')\<close>, and
  \<open>FilterGraph handles out\<close> is \<open>ffmpeg.output(*handles, out)\<close>.
\<close>

datatype invocation =
    ConcatCopy string string
  | FilterGraph "stream list" string

record env =
  storage :: string
  download :: "string \<Rightarrow> string \<Rightarrow> error + string"
  probe :: "string \<Rightarrow> error + rat"
  abspath :: "string \<Rightarrow> string"
  engine :: "invocation \<Rightarrow> string set \<Rightarrow> error + string set"

subsection \<open>Duration resolver\<close>

text \<open>
  \<open>_get_video_duration\<close>: only an object with a node whose kwargs hold a non-empty
  \<open>filename\<close> is probed; of the nodes above only the input node has that key.
\<close>

fun get_video_duration :: "env \<Rightarrow> pyobj \<Rightarrow> error + rat" where
  "get_video_duration e (PStream (Stream (InputNode filename) sel)) =
     (if filename \<noteq> [] then probe e filename else Inr 0)"
| "get_video_duration e x = Inr 0"

subsection \<open>Pairwise transition builders\<close>

record transition =
  t_type :: "string option"
  t_duration :: "rat option"

definition crossfade_transition :: "env \<Rightarrow> pyobj \<Rightarrow> pyobj \<Rightarrow> rat \<Rightarrow> error + pyobj" where
  "crossfade_transition e video1 video2 duration =
     bind (get_video_duration e video1) (\<lambda>v1_duration.
     let offset = v1_duration - duration in
     bind (video video1) (\<lambda>v1.
     bind (audio video1) (\<lambda>a1.
     bind (video video2) (\<lambda>v2.
     bind (audio video2) (\<lambda>a2.
     let v1_trimmed = Stream (Trim None (Some v1_duration) v1) None;
         v1_faded = Stream (Fade ''out'' offset duration v1_trimmed) None;
         a1_trimmed = Stream (ATrim None (Some v1_duration) a1) None;
         a1_faded = Stream (AFade ''out'' offset duration a1_trimmed) None;
         v2_trimmed = Stream (Trim (Some 0) (Some duration) v2) None;
         v2_faded = Stream (Fade ''in'' 0 duration v2_trimmed) None;
         a2_trimmed = Stream (ATrim (Some 0) (Some duration) a2) None;
         a2_faded = Stream (AFade ''in'' 0 duration a2_trimmed) None;
         v2_remaining = Stream (Trim (Some duration) None v2) None;
         a2_remaining = Stream (ATrim (Some duration) None a2) None;
         v_overlay = Stream (Overlay v1_faded v2_faded) None;
         a_mix = Stream (AMix 2 ''shortest'' a1_faded a2_faded) None
     in
     bind (ffmpeg_concat (PStream v_overlay) (PStream v2_remaining) 1 0) (\<lambda>v_final.
     bind (ffmpeg_concat (PStream a_mix) (PStream a2_remaining) 0 1) (\<lambda>a_final.
     Inr (PDict v_final a_final))))))))"

definition fade_transition :: "env \<Rightarrow> pyobj \<Rightarrow> pyobj \<Rightarrow> rat \<Rightarrow> error + pyobj" where
  "fade_transition e video1 video2 duration =
     bind (get_video_duration e video1) (\<lambda>v1_duration.
     let fade_start = v1_duration - duration / 2 in
     bind (video video1) (\<lambda>v1.
     bind (audio video1) (\<lambda>a1.
     bind (video video2) (\<lambda>v2.
     bind (audio video2) (\<lambda>a2.
     let v1_faded = Stream (Fade ''out'' fade_start (duration / 2) v1) None;
         a1_faded = Stream (AFade ''out'' fade_start (duration / 2) a1) None;
         v2_faded = Stream (Fade ''in'' 0 (duration / 2) v2) None;
         a2_faded = Stream (AFade ''in'' 0 (duration / 2) a2) None
     in
     bind (ffmpeg_concat (PStream v1_faded) (PStream v2_faded) 1 0) (\<lambda>v_out.
     bind (ffmpeg_concat (PStream a1_faded) (PStream a2_faded) 0 1) (\<lambda>a_out.
     Inr (PDict v_out a_out))))))))"

definition wipe_transition :: "env \<Rightarrow> pyobj \<Rightarrow> pyobj \<Rightarrow> rat \<Rightarrow> error + pyobj" where
  "wipe_transition e video1 video2 duration =
     bind (ffmpeg_concat video1 video2 1 0) (\<lambda>v_out.
     bind (ffmpeg_concat video1 video2 0 1) (\<lambda>a_out.
     Inr (PDict v_out a_out)))"

definition slide_transition :: "env \<Rightarrow> pyobj \<Rightarrow> pyobj \<Rightarrow> rat \<Rightarrow> error + pyobj" where
  "slide_transition e video1 video2 duration =
     bind (ffmpeg_concat video1 video2 1 0) (\<lambda>v_out.
     bind (ffmpeg_concat video1 video2 0 1) (\<lambda>a_out.
     Inr (PDict v_out a_out)))"

text \<open>
  \<open>_apply_transition\<close>: \<open>transition.get('type', 'none')\<close> and
  \<open>float(transition.get('duration', 1.0))\<close>, then the dispatch on the kind. A transition
  object of the interface holds a string under \<open>type\<close> and a number under
  \<open>duration\<close>, each possibly absent, so \<open>float\<close> returns the number.
\<close>

definition apply_transition :: "env \<Rightarrow> pyobj \<Rightarrow> pyobj \<Rightarrow> transition \<Rightarrow> error + pyobj" where
  "apply_transition e video1 video2 tr =
     (let transition_type = (case t_type tr of None \<Rightarrow> ''none'' | Some s \<Rightarrow> s);
          duration = (case t_duration tr of None \<Rightarrow> 1 | Some d \<Rightarrow> d)
      in if transition_type = ''crossfade'' then crossfade_transition e video1 video2 duration
         else if transition_type = ''fade'' then fade_transition e video1 video2 duration
         else if transition_type = ''wipe'' then wipe_transition e video1 video2 duration
         else if transition_type = ''slide'' then slide_transition e video1 video2 duration
         else bind (ffmpeg_concat video1 video2 1 1) (\<lambda>s. Inr (PStream s)))"

subsection \<open>Chain composer\<close>

definition default_transition :: transition where
  "default_transition = \<lparr>t_type = Some ''none'', t_duration = Some 1\<rparr>"

text \<open>Python truthiness of the \<open>transitions\<close> argument: \<open>None\<close> and \<open>[]\<close> are false.\<close>

fun truthy :: "'a list option \<Rightarrow> bool" where
  "truthy None = False"
| "truthy (Some xs) = (xs \<noteq> [])"

text \<open>Python list indexing: a negative index counts from the end.\<close>

definition py_index :: "'a list \<Rightarrow> int \<Rightarrow> error + 'a" where
  "py_index xs i =
     (if 0 \<le> i \<and> i < int (length xs) then Inr (xs ! nat i)
      else if i < 0 \<and> 0 \<le> int (length xs) + i then Inr (xs ! nat (int (length xs) + i))
      else Inl IndexError)"

text \<open>
  The transition of the loop body at loop index \<open>i\<close>:
  \<open>transition_idx = min(i - 1, len(transitions) - 1) if transitions else 0\<close> and
  \<open>transition = transitions[transition_idx] if transitions else {'type': 'none', 'duration': 1.0}\<close>.
\<close>

definition loop_transition :: "transition list option \<Rightarrow> nat \<Rightarrow> error + transition" where
  "loop_transition transitions i =
     (case transitions of
        None \<Rightarrow> Inr default_transition
      | Some ts \<Rightarrow>
          if ts = [] then Inr default_transition
          else py_index ts (min (int i - 1) (int (length ts) - 1)))"

text \<open>
  The loop \<open>for i in range(1, len(inputs))\<close>, started at \<open>i = 1\<close> with the inputs after
  the first: an exception of the builder ends it.
\<close>

fun chain :: "env \<Rightarrow> transition list option \<Rightarrow> pyobj \<Rightarrow> nat \<Rightarrow> pyobj list \<Rightarrow> error + pyobj" where
  "chain e transitions result i [] = Inr result"
| "chain e transitions result i (inp # rest) =
     bind (loop_transition transitions i) (\<lambda>tr.
     bind (apply_transition e result inp tr) (\<lambda>result'.
     chain e transitions result' (Suc i) rest))"

text \<open>
  The graph-building part of \<open>_concatenate_with_transitions\<close>, up to \<open>output_streams\<close>.
\<close>

definition build_output_streams :: "env \<Rightarrow> string list \<Rightarrow> transition list option \<Rightarrow> error + pyobj" where
  "build_output_streams e input_files transitions =
     (if length input_files < 2 then Inl (ValueError ''At least 2 videos are required for transitions'')
      else
        let inputs = map ffmpeg_input input_files in
        if length input_files = 2 then
          bind (case transitions of
                  None \<Rightarrow> Inr default_transition
                | Some ts \<Rightarrow> if ts = [] then Inr default_transition else py_index ts 0) (\<lambda>tr.
          apply_transition e (inputs ! 0) (inputs ! 1) tr)
        else chain e transitions (inputs ! 0) 1 (tl inputs))"

subsection \<open>Files, the engine and the top-level operation\<close>

text \<open>
  The state: the set of files that exist, the engine invocations made so far, the text
  written to the concat list, and the paths the module itself has removed.
\<close>

record world =
  files :: "string set"
  runs :: "invocation list"
  written :: "(string \<times> string) list"
  removed :: "string list"

text \<open>\<open>os.path.join\<close> of two components (POSIX).\<close>

definition path_join :: "string \<Rightarrow> string \<Rightarrow> string" where
  "path_join a b =
     (if b \<noteq> [] \<and> hd b = CHR ''/'' then b
      else if a = [] \<or> last a = CHR ''/'' then a @ b
      else a @ ''/'' @ b)"

text \<open>Decimal rendering of the loop counter in the f-string.\<close>

fun str_nat :: "nat \<Rightarrow> string" where
  "str_nat n =
     (if n < 10 then [''0123456789'' ! n] else str_nat (n div 10) @ [''0123456789'' ! (n mod 10)])"

declare str_nat.simps [simp del]

text \<open>\<open>.run(overwrite_output=True)\<close>: the invocation is recorded, then the engine decides.\<close>

definition run :: "env \<Rightarrow> invocation \<Rightarrow> world \<Rightarrow> (error + unit) \<times> world" where
  "run e cmd w =
     (let w' = w\<lparr>runs := runs w @ [cmd]\<rparr> in
      case engine e cmd (files w) of
        Inl err \<Rightarrow> (Inl err, w')
      | Inr fs \<Rightarrow> (Inr (), w'\<lparr>files := fs\<rparr>))"

text \<open>\<open>os.remove\<close>: raises when the path does not exist.\<close>

definition os_remove :: "string \<Rightarrow> world \<Rightarrow> (error + unit) \<times> world" where
  "os_remove f w =
     (if f \<in> files w then (Inr (), w\<lparr>files := files w - {f}, removed := removed w @ [f]\<rparr>)
      else (Inl FileNotFoundError, w))"

definition concat_line :: "env \<Rightarrow> string \<Rightarrow> string" where
  "concat_line e input_file = ''file '' @ [CHR 0x27] @ abspath e input_file @ [CHR 0x27, CHR 0x0A]"

definition concatenate_simple :: "env \<Rightarrow> string list \<Rightarrow> string \<Rightarrow> string \<Rightarrow> world \<Rightarrow> (error + unit) \<times> world" where
  "concatenate_simple e input_files output_path job_id w =
     (let concat_file_path = path_join (storage e) (job_id @ ''_concat_list.txt'');
          w1 = w\<lparr>files := insert concat_file_path (files w),
                 written := written w @ [(concat_file_path, concat (map (concat_line e) input_files))]\<rparr>
      in case run e (ConcatCopy concat_file_path output_path) w1 of
           (Inl err, w2) \<Rightarrow> (Inl err, w2)
         | (Inr u, w2) \<Rightarrow> os_remove concat_file_path w2)"

text \<open>
  The handles given to \<open>ffmpeg.output\<close>: the two values of a dict, or the one handle.
\<close>

fun output_handles :: "pyobj \<Rightarrow> stream list" where
  "output_handles (PDict video_stream audio_stream) = [video_stream, audio_stream]"
| "output_handles (PStream output_streams) = [output_streams]"

definition concatenate_with_transitions ::
  "env \<Rightarrow> string list \<Rightarrow> string \<Rightarrow> transition list option \<Rightarrow> world \<Rightarrow> (error + unit) \<times> world" where
  "concatenate_with_transitions e input_files output_path transitions w =
     (case build_output_streams e input_files transitions of
        Inl err \<Rightarrow> (Inl err, w)
      | Inr output_streams \<Rightarrow> run e (FilterGraph (output_handles output_streams) output_path) w)"

text \<open>
  The download loop: \<open>media_item['video_url']\<close> raises KeyError when the key is missing
  (an item is its URL, or \<open>None\<close> without the key); a downloaded file exists afterwards.
\<close>

fun download_all ::
  "env \<Rightarrow> string \<Rightarrow> nat \<Rightarrow> string option list \<Rightarrow> string list \<Rightarrow> world \<Rightarrow> (error + string list) \<times> world" where
  "download_all e job_id i [] input_files w = (Inr input_files, w)"
| "download_all e job_id i (None # items) input_files w = (Inl KeyError, w)"
| "download_all e job_id i (Some url # items) input_files w =
     (case download e url (path_join (storage e) (job_id @ ''_input_'' @ str_nat i)) of
        Inl err \<Rightarrow> (Inl err, w)
      | Inr input_filename \<Rightarrow>
          download_all e job_id (Suc i) items (input_files @ [input_filename])
            (w\<lparr>files := insert input_filename (files w)\<rparr>))"

text \<open>The clean-up loop \<open>for f in input_files: os.remove(f)\<close>.\<close>

fun remove_all :: "string list \<Rightarrow> world \<Rightarrow> (error + unit) \<times> world" where
  "remove_all [] w = (Inr (), w)"
| "remove_all (f # fs) w =
     (case os_remove f w of
        (Inl err, w') \<Rightarrow> (Inl err, w')
      | (Inr u, w') \<Rightarrow> remove_all fs w')"

definition process_video_concatenate ::
  "env \<Rightarrow> string option list \<Rightarrow> string \<Rightarrow> transition list option \<Rightarrow> world \<Rightarrow> (error + string) \<times> world" where
  "process_video_concatenate e media_urls job_id transitions w =
     (let output_path = path_join (storage e) (job_id @ ''.mp4'') in
      case download_all e job_id 0 media_urls [] w of
        (Inl err, w1) \<Rightarrow> (Inl err, w1)
      | (Inr input_files, w1) \<Rightarrow>
          (case (if truthy transitions \<and> 0 < (case transitions of None \<Rightarrow> 0 | Some ts \<Rightarrow> length ts)
                 then concatenate_with_transitions e input_files output_path transitions w1
                 else concatenate_simple e input_files output_path job_id w1) of
             (Inl err, w2) \<Rightarrow> (Inl err, w2)
           | (Inr u, w2) \<Rightarrow>
               (case remove_all input_files w2 of
                  (Inl err, w3) \<Rightarrow> (Inl err, w3)
                | (Inr u', w3) \<Rightarrow>
                    if output_path \<notin> files w3 then (Inl FileNotFoundError, w3)
                    else (Inr output_path, w3))))"

subsection \<open>Length of a stream of the graph\<close>

text \<open>
  The engine is not part of the repository. A stream of a graph has a length in seconds
  when the engine accepts the graph, and none when it refuses it. The filters \<open>trim\<close> and
  \<open>atrim\<close> have the options \<open>start\<close>, \<open>end\<close> and \<open>duration\<close> but no option
  \<open>start_time\<close>: the engine refuses a graph in which a trim node carries that keyword
  (\<open>Option not found\<close>), and a trim node with \<open>duration\<close> alone keeps at most that many
  seconds. The other filters follow their documented effect on length, from the length
  of every input file: \<open>fade\<close>/\<open>afade\<close> keep the length; \<open>overlay\<close> runs until both
  inputs have ended; \<open>amix\<close> ends with its shortest input under
  \<open>duration='shortest'\<close>, with its first under \<open>'first'\<close>, else with its longest;
  \<open>concat\<close> with \<open>n = 2\<close> plays its two operands one after the other, and with
  \<open>n = 1\<close> both operands are the streams of its only segment, the returned handle being
  the first of them.
\<close>

fun both :: "(rat \<Rightarrow> rat \<Rightarrow> rat) \<Rightarrow> rat option \<Rightarrow> rat option \<Rightarrow> rat option" where
  "both f (Some x) (Some y) = Some (f x y)"
| "both f x y = None"

fun trimmed :: "rat option \<Rightarrow> rat option \<Rightarrow> rat option \<Rightarrow> rat option" where
  "trimmed (Some start_time) duration l = None"
| "trimmed None None l = l"
| "trimmed None (Some duration) l = both min l (Some (max 0 duration))"

fun node_len :: "(string \<Rightarrow> rat) \<Rightarrow> node \<Rightarrow> rat option"
  and stream_len :: "(string \<Rightarrow> rat) \<Rightarrow> stream \<Rightarrow> rat option" where
  "node_len file_len (InputNode f) = Some (file_len f)"
| "node_len file_len (Trim st du s) = trimmed st du (stream_len file_len s)"
| "node_len file_len (ATrim st du s) = trimmed st du (stream_len file_len s)"
| "node_len file_len (Fade ty st du s) = stream_len file_len s"
| "node_len file_len (AFade ty st du s) = stream_len file_len s"
| "node_len file_len (Overlay s1 s2) = both max (stream_len file_len s1) (stream_len file_len s2)"
| "node_len file_len (AMix k policy s1 s2) =
     (if policy = ''shortest'' then both min (stream_len file_len s1) (stream_len file_len s2)
      else if policy = ''first'' then both (\<lambda>x y. x) (stream_len file_len s1) (stream_len file_len s2)
      else both max (stream_len file_len s1) (stream_len file_len s2))"
| "node_len file_len (Concat v a n s1 s2) =
     (if n = 2 then both (+) (stream_len file_len s1) (stream_len file_len s2)
      else both (\<lambda>x y. x) (stream_len file_len s1) (stream_len file_len s2))"
| "stream_len file_len (Stream n sel) = node_len file_len n"

subsection \<open>A concrete environment\<close>

text \<open>
  Storage under \<open>/tmp\<close>; a download stores the file at its destination prefix with the
  suffix \<open>.mp4\<close>; the probe reports 10 seconds for \<open>a.mp4\<close> and 8 for any other file; the
  engine succeeds and creates its output file.
\<close>

definition sample_env :: env where
  "sample_env =
     \<lparr>storage = ''/tmp'',
      download = (\<lambda>url dest. Inr (dest @ ''.mp4'')),
      probe = (\<lambda>f. Inr (if f = ''a.mp4'' then 10 else 8)),
      abspath = (\<lambda>p. p),
      engine = (\<lambda>cmd fs. Inr (insert (case cmd of ConcatCopy l out \<Rightarrow> out | FilterGraph ss out \<Rightarrow> out) fs))\<rparr>"

definition sample_len :: "string \<Rightarrow> rat" where
  "sample_len f = (if f = ''a.mp4'' then 10 else 8)"

definition empty_world :: world where
  "empty_world = \<lparr>files = {}, runs = [], written = [], removed = []\<rparr>"

section \<open>Auxiliary facts\<close>

lemma bind_Inr [simp]: "bind (Inr x) f = f x"
  by (simp add: bind_def)

lemma bind_Inl [simp]: "bind (Inl err) f = Inl err"
  by (simp add: bind_def)

lemma bind_return [simp]: "bind m Inr = m"
  by (cases m) simp_all

lemma video_input [simp]: "video (ffmpeg_input f) = Inr (Stream (InputNode f) (Some ''v''))"
  by (simp add: video_def ffmpeg_input_def)

lemma audio_input [simp]: "audio (ffmpeg_input f) = Inr (Stream (InputNode f) (Some ''a''))"
  by (simp add: audio_def ffmpeg_input_def)

lemma video_dict [simp]: "video (PDict v a) = Inl AttributeError"
  by (simp add: video_def)

lemma concat_streams [simp]:
  "ffmpeg_concat (PStream s1) (PStream s2) 1 0 = Inr (Stream (Concat 1 0 2 s1 s2) None)"
  "ffmpeg_concat (PStream s1) (PStream s2) 0 1 = Inr (Stream (Concat 0 1 2 s1 s2) None)"
  "ffmpeg_concat (PStream s1) (PStream s2) 1 1 = Inr (Stream (Concat 1 1 1 s1 s2) None)"
  by (simp_all add: ffmpeg_concat_def)

lemma concat_dict [simp]:
  "ffmpeg_concat (PDict v a) y 1 0 = Inl TypeError"
  "ffmpeg_concat (PDict v a) y 1 1 = Inl TypeError"
  by (simp_all add: ffmpeg_concat_def)

lemma get_video_duration_input [simp]:
  "get_video_duration e (ffmpeg_input f) = (if f \<noteq> [] then probe e f else Inr 0)"
  by (simp add: ffmpeg_input_def)

lemma get_video_duration_other:
  "(\<forall>f sel. x \<noteq> PStream (Stream (InputNode f) sel)) \<Longrightarrow> get_video_duration e x = Inr 0"
  by (cases "(e, x)" rule: get_video_duration.cases) auto

lemma fade_on_inputs:
  "get_video_duration e (ffmpeg_input fa) = Inr da \<Longrightarrow>
   fade_transition e (ffmpeg_input fa) (ffmpeg_input fb) d =
     Inr (PDict
       (Stream (Concat 1 0 2
          (Stream (Fade ''out'' (da - d / 2) (d / 2) (Stream (InputNode fa) (Some ''v''))) None)
          (Stream (Fade ''in'' 0 (d / 2) (Stream (InputNode fb) (Some ''v''))) None)) None)
       (Stream (Concat 0 1 2
          (Stream (AFade ''out'' (da - d / 2) (d / 2) (Stream (InputNode fa) (Some ''a''))) None)
          (Stream (AFade ''in'' 0 (d / 2) (Stream (InputNode fb) (Some ''a''))) None)) None))"
  unfolding fade_transition_def by (simp add: Let_def)

lemma crossfade_on_inputs:
  "get_video_duration e (ffmpeg_input fa) = Inr da \<Longrightarrow>
   crossfade_transition e (ffmpeg_input fa) (ffmpeg_input fb) d =
     Inr (PDict
       (Stream (Concat 1 0 2
          (Stream (Overlay
             (Stream (Fade ''out'' (da - d) d
                (Stream (Trim None (Some da) (Stream (InputNode fa) (Some ''v''))) None)) None)
             (Stream (Fade ''in'' 0 d
                (Stream (Trim (Some 0) (Some d) (Stream (InputNode fb) (Some ''v''))) None)) None)) None)
          (Stream (Trim (Some d) None (Stream (InputNode fb) (Some ''v''))) None)) None)
       (Stream (Concat 0 1 2
          (Stream (AMix 2 ''shortest''
             (Stream (AFade ''out'' (da - d) d
                (Stream (ATrim None (Some da) (Stream (InputNode fa) (Some ''a''))) None)) None)
             (Stream (AFade ''in'' 0 d
                (Stream (ATrim (Some 0) (Some d) (Stream (InputNode fb) (Some ''a''))) None)) None)) None)
          (Stream (ATrim (Some d) None (Stream (InputNode fb) (Some ''a''))) None)) None))"
  unfolding crossfade_transition_def by (simp add: Let_def)

lemma py_index_in_range: "i < length xs \<Longrightarrow> py_index xs (int i) = Inr (xs ! i)"
  by (simp add: py_index_def)

lemma loop_transition_clamped:
  assumes "ts \<noteq> []" and "1 \<le> i"
  shows "loop_transition (Some ts) i = Inr (ts ! min (i - 1) (length ts - 1))"
proof -
  have idx: "min (int i - 1) (int (length ts) - 1) = int (min (i - 1) (length ts - 1))"
    using assms by (cases ts) auto
  have "min (i - 1) (length ts - 1) < length ts"
    using assms by (cases ts) auto
  then show ?thesis
    using assms by (simp add: loop_transition_def idx py_index_in_range)
qed

lemma loop_transition_default:
  "\<not> truthy transitions \<Longrightarrow> loop_transition transitions i = Inr default_transition"
  by (cases transitions) (simp_all add: loop_transition_def)

lemma loop_transition_total: "\<exists>tr. loop_transition transitions i = Inr tr"
proof (cases "truthy transitions")
  case False
  then show ?thesis by (simp add: loop_transition_default)
next
  case True
  then obtain ts where ts: "transitions = Some ts" "ts \<noteq> []"
    by (cases transitions) auto
  show ?thesis
  proof (cases "1 \<le> i")
    case True
    then show ?thesis using ts by (simp add: loop_transition_clamped)
  next
    case False
    then have "i = 0" by simp
    then show ?thesis
      using ts by (cases ts) (auto simp: loop_transition_def py_index_def)
  qed
qed

lemma four_kinds_on_inputs:
  assumes "t_type tr \<in> {Some ''crossfade'', Some ''fade'', Some ''wipe'', Some ''slide''}"
    and "get_video_duration e (ffmpeg_input fa) = Inr da"
  shows "\<exists>v a. apply_transition e (ffmpeg_input fa) (ffmpeg_input fb) tr = Inr (PDict v a)"
proof -
  have w: "\<exists>v a. wipe_transition e (ffmpeg_input fa) (ffmpeg_input fb) d = Inr (PDict v a)" for d
    by (simp add: wipe_transition_def ffmpeg_input_def)
  have s: "\<exists>v a. slide_transition e (ffmpeg_input fa) (ffmpeg_input fb) d = Inr (PDict v a)" for d
    by (simp add: slide_transition_def ffmpeg_input_def)
  have c: "\<exists>v a. crossfade_transition e (ffmpeg_input fa) (ffmpeg_input fb) d = Inr (PDict v a)" for d
    using assms(2) by (simp add: crossfade_on_inputs)
  have f: "\<exists>v a. fade_transition e (ffmpeg_input fa) (ffmpeg_input fb) d = Inr (PDict v a)" for d
    using assms(2) by (simp add: fade_on_inputs)
  show ?thesis
    using assms(1) w s c f by (auto simp: apply_transition_def Let_def)
qed
lemma download_all_frame:
  "download_all e job_id i items acc w = (r, w') \<Longrightarrow>
   runs w' = runs w \<and> written w' = written w \<and> removed w' = removed w"
  by (induction e job_id i items acc w rule: download_all.induct) (auto split: sum.splits)

lemma download_all_length:
  "download_all e job_id i items acc w = (Inr fs, w') \<Longrightarrow> length fs = length acc + length items"
  by (induction e job_id i items acc w rule: download_all.induct) (auto split: sum.splits)

lemma os_remove_ok:
  "os_remove f w = (Inr u, w') \<Longrightarrow>
   removed w' = removed w @ [f] \<and> files w' = files w - {f} \<and> runs w' = runs w \<and> written w' = written w"
  by (auto simp: os_remove_def split: if_splits)

lemma os_remove_frame:
  "os_remove f w = (r, w') \<Longrightarrow> runs w' = runs w \<and> written w' = written w"
  by (auto simp: os_remove_def split: if_splits)

lemma remove_all_frame:
  "remove_all fs w = (r, w') \<Longrightarrow> runs w' = runs w \<and> written w' = written w"
proof (induction fs arbitrary: w)
  case Nil
  then show ?case by simp
next
  case (Cons f fs)
  obtain r1 w1 where o: "os_remove f w = (r1, w1)" by (cases "os_remove f w")
  show ?case
  proof (cases r1)
    case (Inl err)
    then show ?thesis using Cons.prems o os_remove_frame [OF o] by simp
  next
    case (Inr u)
    then have "remove_all fs w1 = (r, w')" using Cons.prems o by simp
    then show ?thesis using Cons.IH os_remove_frame [OF o] by simp
  qed
qed

lemma remove_all_ok:
  "remove_all fs w = (Inr u, w') \<Longrightarrow> removed w' = removed w @ fs \<and> files w' = files w - set fs"
proof (induction fs arbitrary: w)
  case Nil
  then show ?case by simp
next
  case (Cons f fs)
  obtain r1 w1 where o: "os_remove f w = (r1, w1)" by (cases "os_remove f w")
  show ?case
  proof (cases r1)
    case (Inl err)
    then show ?thesis using Cons.prems o by simp
  next
    case (Inr u1)
    then have rest: "remove_all fs w1 = (Inr u, w')" using Cons.prems o by simp
    have "removed w1 = removed w @ [f]" "files w1 = files w - {f}"
      using os_remove_ok o Inr by blast+
    then show ?thesis using Cons.IH [OF rest] by auto
  qed
qed

lemma run_frame:
  "run e cmd w = (r, w') \<Longrightarrow> runs w' = runs w @ [cmd] \<and> written w' = written w \<and> removed w' = removed w"
  by (auto simp: run_def Let_def split: sum.splits)

lemma concatenate_simple_effect:
  "concatenate_simple e input_files output_path job_id w = (r, w') \<Longrightarrow>
   runs w' = runs w @ [ConcatCopy (path_join (storage e) (job_id @ ''_concat_list.txt'')) output_path] \<and>
   written w' = written w @ [(path_join (storage e) (job_id @ ''_concat_list.txt''),
                              concat (map (concat_line e) input_files))]"
proof -
  let ?p = "path_join (storage e) (job_id @ ''_concat_list.txt'')"
  let ?w1 = "w\<lparr>files := insert ?p (files w),
                 written := written w @ [(?p, concat (map (concat_line e) input_files))]\<rparr>"
  assume a: "concatenate_simple e input_files output_path job_id w = (r, w')"
  obtain r2 w2 where ru: "run e (ConcatCopy ?p output_path) ?w1 = (r2, w2)"
    by (cases "run e (ConcatCopy ?p output_path) ?w1")
  have f2: "runs w2 = runs w @ [ConcatCopy ?p output_path]"
           "written w2 = written w @ [(?p, concat (map (concat_line e) input_files))]"
    using run_frame [OF ru] by simp_all
  show ?thesis
  proof (cases r2)
    case (Inl err)
    then have "w' = w2" using a ru by (simp add: concatenate_simple_def Let_def)
    then show ?thesis using f2 by simp
  next
    case (Inr u)
    then have "os_remove ?p w2 = (r, w')" using a ru by (simp add: concatenate_simple_def Let_def)
    then show ?thesis using f2 os_remove_frame by fastforce
  qed
qed
lemma concatenate_simple_ok:
  assumes "concatenate_simple e input_files output_path job_id w = (Inr (), w')"
  shows "(\<exists>cmd. runs w' = runs w @ [cmd])
    \<and> removed w' = removed w @ [path_join (storage e) (job_id @ ''_concat_list.txt'')]
    \<and> map fst (written w') = map fst (written w) @ [path_join (storage e) (job_id @ ''_concat_list.txt'')]"
proof -
  let ?p = "path_join (storage e) (job_id @ ''_concat_list.txt'')"
  let ?w1 = "w\<lparr>files := insert ?p (files w),
                 written := written w @ [(?p, concat (map (concat_line e) input_files))]\<rparr>"
  obtain r2 w2 where ru: "run e (ConcatCopy ?p output_path) ?w1 = (r2, w2)"
    by (cases "run e (ConcatCopy ?p output_path) ?w1")
  have f2: "runs w2 = runs w @ [ConcatCopy ?p output_path]" "removed w2 = removed w"
    using run_frame [OF ru] by simp_all
  have r2: "r2 = Inr ()"
    using assms ru by (cases r2) (auto simp: concatenate_simple_def Let_def)
  then have rm: "os_remove ?p w2 = (Inr (), w')"
    using assms ru by (simp add: concatenate_simple_def Let_def)
  have "removed w' = removed w2 @ [?p]" "runs w' = runs w2"
    using os_remove_ok [OF rm] by simp_all
  then show ?thesis
    using f2 concatenate_simple_effect [OF assms] by simp
qed

lemma concatenate_with_transitions_ok:
  assumes "concatenate_with_transitions e input_files output_path transitions w = (Inr (), w')"
  shows "(\<exists>cmd. runs w' = runs w @ [cmd]) \<and> removed w' = removed w \<and> written w' = written w"
proof (cases "build_output_streams e input_files transitions")
  case (Inl err)
  then show ?thesis using assms by (simp add: concatenate_with_transitions_def)
next
  case (Inr output_streams)
  then have "run e (FilterGraph (output_handles output_streams) output_path) w = (Inr (), w')"
    using assms by (simp add: concatenate_with_transitions_def)
  then show ?thesis using run_frame by blast
qed









lemma crossfade_on_filter_output:
  "(\<forall>f. n \<noteq> InputNode f) \<Longrightarrow>
   crossfade_transition e (PStream (Stream n None)) (ffmpeg_input fb) d =
     Inr (PDict
       (Stream (Concat 1 0 2
          (Stream (Overlay
             (Stream (Fade ''out'' (0 - d) d
                (Stream (Trim None (Some 0) (Stream n (Some ''v''))) None)) None)
             (Stream (Fade ''in'' 0 d
                (Stream (Trim (Some 0) (Some d) (Stream (InputNode fb) (Some ''v''))) None)) None)) None)
          (Stream (Trim (Some d) None (Stream (InputNode fb) (Some ''v''))) None)) None)
       (Stream (Concat 0 1 2
          (Stream (AMix 2 ''shortest''
             (Stream (AFade ''out'' (0 - d) d
                (Stream (ATrim None (Some 0) (Stream n (Some ''a''))) None)) None)
             (Stream (AFade ''in'' 0 d
                (Stream (ATrim (Some 0) (Some d) (Stream (InputNode fb) (Some ''a''))) None)) None)) None)
          (Stream (ATrim (Some d) None (Stream (InputNode fb) (Some ''a''))) None)) None))"
  unfolding crossfade_transition_def
  by (simp add: Let_def get_video_duration_other video_def audio_def ffmpeg_input_def)

lemma apply_transition_dict:
  "apply_transition e (PDict v a) y tr =
     Inl (if t_type tr \<in> {Some ''crossfade'', Some ''fade''} then AttributeError else TypeError)"
  by (cases "t_type tr")
    (simp_all add: apply_transition_def crossfade_transition_def fade_transition_def
      wipe_transition_def slide_transition_def Let_def)

lemma other_kind_on_streams:
  assumes "t_type tr \<notin> {Some ''crossfade'', Some ''fade'', Some ''wipe'', Some ''slide''}"
  shows "apply_transition e (PStream s1) (PStream s2) tr = Inr (PStream (Stream (Concat 1 1 1 s1 s2) None))"
  using assms by (cases "t_type tr") (auto simp: apply_transition_def Let_def)

section \<open>The claims\<close>

subsection \<open>Crossfade\<close>

text \<open>
  Claim C1 says that a crossfade of \<open>d\<close> seconds between clips of \<open>durA\<close> and \<open>durB\<close>
  seconds yields \<open>durA + durB - d\<close> seconds on the video track and on the audio track.
  The builder passes the keyword \<open>start_time\<close> to \<open>trim\<close> and \<open>atrim\<close>, for the leading
  part and for the remainder of the second clip; these filters have no such option, so
  the engine refuses the graph and there is no output of any length. For clips of 10 and
  8 seconds and \<open>d = 2\<close> the builder returns the graph below, and neither of its two
  handles has a length.
\<close>

theorem crossfade_graph_refused:
  "crossfade_transition sample_env (ffmpeg_input ''a.mp4'') (ffmpeg_input ''b.mp4'') 2 =
     Inr (PDict
       (Stream (Concat 1 0 2
          (Stream (Overlay
             (Stream (Fade ''out'' 8 2
                (Stream (Trim None (Some 10) (Stream (InputNode ''a.mp4'') (Some ''v''))) None)) None)
             (Stream (Fade ''in'' 0 2
                (Stream (Trim (Some 0) (Some 2) (Stream (InputNode ''b.mp4'') (Some ''v''))) None)) None)) None)
          (Stream (Trim (Some 2) None (Stream (InputNode ''b.mp4'') (Some ''v''))) None)) None)
       (Stream (Concat 0 1 2
          (Stream (AMix 2 ''shortest''
             (Stream (AFade ''out'' 8 2
                (Stream (ATrim None (Some 10) (Stream (InputNode ''a.mp4'') (Some ''a''))) None)) None)
             (Stream (AFade ''in'' 0 2
                (Stream (ATrim (Some 0) (Some 2) (Stream (InputNode ''b.mp4'') (Some ''a''))) None)) None)) None)
          (Stream (ATrim (Some 2) None (Stream (InputNode ''b.mp4'') (Some ''a''))) None)) None))
   \<and> bind (crossfade_transition sample_env (ffmpeg_input ''a.mp4'') (ffmpeg_input ''b.mp4'') 2)
        (\<lambda>r. Inr (map (stream_len sample_len) (output_handles r))) = Inr [None, None]"
  by (simp add: crossfade_on_inputs sample_env_def sample_len_def)

subsection \<open>Validation of the duration\<close>

text \<open>
  The builders accept a crossfade of 0 seconds, a fade of -1 second and a crossfade of 20
  seconds between clips of 10 and 8 seconds: each returns its dict of two handles.
\<close>

theorem duration_not_validated_example:
  "bind (apply_transition sample_env (ffmpeg_input ''a.mp4'') (ffmpeg_input ''b.mp4'')
           \<lparr>t_type = Some ''crossfade'', t_duration = Some 0\<rparr>)
     (\<lambda>r. Inr (length (output_handles r))) = Inr 2
   \<and> bind (apply_transition sample_env (ffmpeg_input ''a.mp4'') (ffmpeg_input ''b.mp4'')
           \<lparr>t_type = Some ''fade'', t_duration = Some (- 1)\<rparr>)
     (\<lambda>r. Inr (length (output_handles r))) = Inr 2
   \<and> bind (apply_transition sample_env (ffmpeg_input ''a.mp4'') (ffmpeg_input ''b.mp4'')
           \<lparr>t_type = Some ''crossfade'', t_duration = Some 20\<rparr>)
     (\<lambda>r. Inr (length (output_handles r))) = Inr 2"
  by (simp add: apply_transition_def crossfade_on_inputs fade_on_inputs sample_env_def)

text \<open>
  Claim C2, amended: no builder checks the duration. For every kind and every duration,
  zero, negative or longer than an input included, the pairwise builder applied to two
  file inputs returns a result whenever the duration resolver succeeds on the first.
\<close>

theorem apply_transition_accepts_any_duration:
  assumes "get_video_duration e (ffmpeg_input fa) = Inr da"
  shows "\<exists>r. apply_transition e (ffmpeg_input fa) (ffmpeg_input fb)
                \<lparr>t_type = kind, t_duration = Some d\<rparr> = Inr r"
proof (cases "kind \<in> {Some ''crossfade'', Some ''fade'', Some ''wipe'', Some ''slide''}")
  case True
  then show ?thesis
    using four_kinds_on_inputs [of "\<lparr>t_type = kind, t_duration = Some d\<rparr>" e fa da fb] assms
    by auto
next
  case False
  then show ?thesis
    using other_kind_on_streams [of "\<lparr>t_type = kind, t_duration = Some d\<rparr>" e]
    by (simp add: ffmpeg_input_def)
qed

theorem apply_transition_accepts_any_duration_witness:
  "get_video_duration sample_env (ffmpeg_input ''a.mp4'') = Inr 10
   \<and> (\<exists>r. apply_transition sample_env (ffmpeg_input ''a.mp4'') (ffmpeg_input ''b.mp4'')
                \<lparr>t_type = Some ''crossfade'', t_duration = Some (- 3)\<rparr> = Inr r)"
proof -
  have h: "get_video_duration sample_env (ffmpeg_input ''a.mp4'') = Inr 10"
    by (simp add: sample_env_def)
  show ?thesis
    using h apply_transition_accepts_any_duration [OF h, of "''b.mp4''" "Some ''crossfade''" "- 3"]
    by simp
qed

subsection \<open>Index clamp of the chain composer\<close>

text \<open>
  Claim C3 says that with fewer transitions than gaps the last transition supplied is
  applied at every remaining gap, as in the example of the specification: clips A, B, C,
  D and the single transition \<open>{crossfade, 1.0}\<close>, where all three joins use it. The loop
  does select the index \<open>min (i - 1) (len - 1)\<close> at every loop index
  (\<open>loop_transition_clamped\<close>), here the same transition at the indices 1, 2 and 3. But
  the builder at gap 1 returns a dict; the builder at gap 2, called with the dict and the
  same transition, raises AttributeError on \<open>.video\<close>; the loop ends there, gap 3 is never
  joined and no plan is built.
\<close>

theorem reused_transition_aborts_chain:
  "loop_transition (Some [\<lparr>t_type = Some ''crossfade'', t_duration = Some 1\<rparr>]) 1 =
     Inr \<lparr>t_type = Some ''crossfade'', t_duration = Some 1\<rparr>
   \<and> loop_transition (Some [\<lparr>t_type = Some ''crossfade'', t_duration = Some 1\<rparr>]) 2 =
     Inr \<lparr>t_type = Some ''crossfade'', t_duration = Some 1\<rparr>
   \<and> loop_transition (Some [\<lparr>t_type = Some ''crossfade'', t_duration = Some 1\<rparr>]) 3 =
     Inr \<lparr>t_type = Some ''crossfade'', t_duration = Some 1\<rparr>
   \<and> bind (apply_transition sample_env (ffmpeg_input ''a.mp4'') (ffmpeg_input ''b.mp4'')
             \<lparr>t_type = Some ''crossfade'', t_duration = Some 1\<rparr>)
        (\<lambda>r. Inr (length (output_handles r))) = Inr 2
   \<and> bind (apply_transition sample_env (ffmpeg_input ''a.mp4'') (ffmpeg_input ''b.mp4'')
             \<lparr>t_type = Some ''crossfade'', t_duration = Some 1\<rparr>)
        (\<lambda>r. apply_transition sample_env r (ffmpeg_input ''c.mp4'')
             \<lparr>t_type = Some ''crossfade'', t_duration = Some 1\<rparr>) = Inl AttributeError
   \<and> build_output_streams sample_env [''a.mp4'', ''b.mp4'', ''c.mp4'', ''d.mp4'']
        (Some [\<lparr>t_type = Some ''crossfade'', t_duration = Some 1\<rparr>]) = Inl AttributeError
   \<and> concatenate_with_transitions sample_env [''a.mp4'', ''b.mp4'', ''c.mp4'', ''d.mp4''] ''/tmp/job.mp4''
        (Some [\<lparr>t_type = Some ''crossfade'', t_duration = Some 1\<rparr>]) empty_world =
       (Inl AttributeError, empty_world)"
proof -
  let ?t = "\<lparr>t_type = Some ''crossfade'', t_duration = Some 1\<rparr>"
  have sel: "loop_transition (Some [?t]) 1 = Inr ?t" "loop_transition (Some [?t]) 2 = Inr ?t"
    "loop_transition (Some [?t]) 3 = Inr ?t" "loop_transition (Some [?t]) (Suc 0) = Inr ?t"
    "loop_transition (Some [?t]) (Suc (Suc 0)) = Inr ?t"
    by (simp_all add: loop_transition_def py_index_def)
  have d: "get_video_duration sample_env (ffmpeg_input ''a.mp4'') = Inr 10"
    by (simp add: sample_env_def)
  have first: "apply_transition sample_env (ffmpeg_input ''a.mp4'') (ffmpeg_input ''b.mp4'') ?t =
      crossfade_transition sample_env (ffmpeg_input ''a.mp4'') (ffmpeg_input ''b.mp4'') 1"
    by (simp add: apply_transition_def)
  note g = crossfade_on_inputs [OF d, of "''b.mp4''" 1]
  have b: "build_output_streams sample_env [''a.mp4'', ''b.mp4'', ''c.mp4'', ''d.mp4''] (Some [?t]) =
      Inl AttributeError"
    by (simp add: build_output_streams_def sel first g apply_transition_dict)
  show ?thesis
    by (simp add: sel first g apply_transition_dict b concatenate_with_transitions_def)
qed

subsection \<open>Copy mode without transitions\<close>

text \<open>
  Claim C4: with an empty or absent \<open>transitions\<close> argument, once the inputs are
  downloaded the operation makes exactly one engine invocation, the copy-mode
  concatenation of the list file (never a filter graph), whatever the number of clips;
  the list file holds one line \<open>file '<absolute path>'\<close> per input, in order.
\<close>

theorem no_transitions_copy_mode:
  assumes "\<not> truthy transitions"
    and "download_all e job_id 0 media_urls [] w = (Inr input_files, w1)"
  shows "runs (snd (process_video_concatenate e media_urls job_id transitions w)) =
           runs w @ [ConcatCopy (path_join (storage e) (job_id @ ''_concat_list.txt''))
                                (path_join (storage e) (job_id @ ''.mp4''))]
       \<and> written (snd (process_video_concatenate e media_urls job_id transitions w)) =
           written w @ [(path_join (storage e) (job_id @ ''_concat_list.txt''),
                         concat (map (\<lambda>f. ''file '' @ [CHR 0x27] @ abspath e f @ [CHR 0x27, CHR 0x0A])
                                     input_files))]
       \<and> length input_files = length media_urls"
proof -
  let ?out = "path_join (storage e) (job_id @ ''.mp4'')"
  let ?list = "path_join (storage e) (job_id @ ''_concat_list.txt'')"
  obtain r2 w2 where cs: "concatenate_simple e input_files ?out job_id w1 = (r2, w2)"
    by (cases "concatenate_simple e input_files ?out job_id w1")
  have w1: "runs w1 = runs w" "written w1 = written w"
    using download_all_frame [OF assms(2)] by simp_all
  have w2: "runs w2 = runs w @ [ConcatCopy ?list ?out]"
    "written w2 = written w @ [(?list, concat (map (concat_line e) input_files))]"
    using concatenate_simple_effect [OF cs] w1 by simp_all
  obtain r3 w3 where rm: "remove_all input_files w2 = (r3, w3)"
    by (cases "remove_all input_files w2")
  have w3: "runs w3 = runs w2" "written w3 = written w2"
    using remove_all_frame [OF rm] by simp_all
  have "snd (process_video_concatenate e media_urls job_id transitions w) = w2 \<or>
        snd (process_video_concatenate e media_urls job_id transitions w) = w3"
    using assms cs rm
    by (auto simp: process_video_concatenate_def Let_def split: sum.splits)
  moreover have "concat_line e = (\<lambda>f. ''file '' @ [CHR 0x27] @ abspath e f @ [CHR 0x27, CHR 0x0A])"
    by (rule ext) (simp add: concat_line_def)
  ultimately show ?thesis
    using w2 w3 download_all_length [OF assms(2)] by auto
qed

text \<open>A single clip and no transitions: one copy-mode run over a list of one line.\<close>

theorem no_transitions_copy_mode_witness:
  "\<not> truthy (None :: transition list option)
   \<and> download_all sample_env ''job'' 0 [Some ''http://host/clip.mp4''] [] empty_world =
       (Inr [''/tmp/job_input_0.mp4''], empty_world\<lparr>files := {''/tmp/job_input_0.mp4''}\<rparr>)
   \<and> runs (snd (process_video_concatenate sample_env [Some ''http://host/clip.mp4''] ''job'' None empty_world)) =
       [ConcatCopy ''/tmp/job_concat_list.txt'' ''/tmp/job.mp4'']
   \<and> written (snd (process_video_concatenate sample_env [Some ''http://host/clip.mp4''] ''job'' None empty_world)) =
       [(''/tmp/job_concat_list.txt'', ''file '' @ [CHR 0x27] @ ''/tmp/job_input_0.mp4'' @ [CHR 0x27, CHR 0x0A])]"
proof -
  have t: "\<not> truthy (None :: transition list option)"
    by simp
  have d: "download_all sample_env ''job'' 0 [Some ''http://host/clip.mp4''] [] empty_world =
       (Inr [''/tmp/job_input_0.mp4''], empty_world\<lparr>files := {''/tmp/job_input_0.mp4''}\<rparr>)"
    by (simp add: sample_env_def empty_world_def path_join_def str_nat.simps)
  have s: "storage sample_env = ''/tmp''" "abspath sample_env = (\<lambda>p. p)"
    by (simp_all add: sample_env_def)
  show ?thesis
    using t d no_transitions_copy_mode [OF t d]
    by (simp add: s path_join_def empty_world_def)
qed

subsection \<open>Fade to black\<close>



subsection \<open>Fewer than two clips\<close>

text \<open>
  Claim C6: with fewer than two input files the composition raises the ValueError
  \<open>At least 2 videos are required for transitions\<close> and leaves the state as it was, so
  no plan is built and no engine invocation is made; the top-level operation, given a
  non-empty list of transitions and fewer than two media items, ends with that error
  right after the downloads.
\<close>

theorem too_few_inputs:
  "(length input_files < 2 \<longrightarrow>
      concatenate_with_transitions e input_files output_path transitions w =
        (Inl (ValueError ''At least 2 videos are required for transitions''), w))
   \<and> (length media_urls < 2 \<longrightarrow> truthy transitions \<longrightarrow>
      download_all e job_id 0 media_urls [] w0 = (Inr downloaded, w1) \<longrightarrow>
      process_video_concatenate e media_urls job_id transitions w0 =
        (Inl (ValueError ''At least 2 videos are required for transitions''), w1)
      \<and> runs w1 = runs w0)"
proof (intro conjI impI)
  assume "length input_files < 2"
  then show "concatenate_with_transitions e input_files output_path transitions w =
        (Inl (ValueError ''At least 2 videos are required for transitions''), w)"
    by (simp add: concatenate_with_transitions_def build_output_streams_def)
next
  assume a: "length media_urls < 2" "truthy transitions"
    "download_all e job_id 0 media_urls [] w0 = (Inr downloaded, w1)"
  have len: "length downloaded < 2"
    using download_all_length [OF a(3)] a(1) by simp
  have tr: "0 < (case transitions of None \<Rightarrow> 0 | Some ts \<Rightarrow> length ts)"
    using a(2) by (cases transitions) auto
  show "process_video_concatenate e media_urls job_id transitions w0 =
        (Inl (ValueError ''At least 2 videos are required for transitions''), w1)"
    using a len tr
    by (simp add: process_video_concatenate_def Let_def concatenate_with_transitions_def
        build_output_streams_def)
  show "runs w1 = runs w0"
    using download_all_frame [OF a(3)] by simp
qed

text \<open>One clip with a crossfade requested.\<close>

theorem too_few_inputs_witness:
  "length [''/tmp/job_input_0.mp4''] < 2
   \<and> length [Some ''http://host/clip.mp4''] < 2
   \<and> truthy (Some [\<lparr>t_type = Some ''crossfade'', t_duration = Some 1\<rparr>])
   \<and> download_all sample_env ''job'' 0 [Some ''http://host/clip.mp4''] [] empty_world =
       (Inr [''/tmp/job_input_0.mp4''], empty_world\<lparr>files := {''/tmp/job_input_0.mp4''}\<rparr>)
   \<and> concatenate_with_transitions sample_env [''/tmp/job_input_0.mp4''] ''/tmp/job.mp4''
        (Some [\<lparr>t_type = Some ''crossfade'', t_duration = Some 1\<rparr>]) empty_world =
       (Inl (ValueError ''At least 2 videos are required for transitions''), empty_world)
   \<and> process_video_concatenate sample_env [Some ''http://host/clip.mp4''] ''job''
        (Some [\<lparr>t_type = Some ''crossfade'', t_duration = Some 1\<rparr>]) empty_world =
       (Inl (ValueError ''At least 2 videos are required for transitions''),
        empty_world\<lparr>files := {''/tmp/job_input_0.mp4''}\<rparr>)
   \<and> runs (empty_world\<lparr>files := {''/tmp/job_input_0.mp4''}\<rparr>) = runs empty_world"
proof -
  have d: "download_all sample_env ''job'' 0 [Some ''http://host/clip.mp4''] [] empty_world =
       (Inr [''/tmp/job_input_0.mp4''], empty_world\<lparr>files := {''/tmp/job_input_0.mp4''}\<rparr>)"
    by (simp add: sample_env_def empty_world_def path_join_def str_nat.simps)
  show ?thesis
    using d too_few_inputs [of "[''/tmp/job_input_0.mp4'']" sample_env "''/tmp/job.mp4''"
        "Some [\<lparr>t_type = Some ''crossfade'', t_duration = Some 1\<rparr>]" empty_world
        "[Some ''http://host/clip.mp4'']" "''job''" empty_world "[''/tmp/job_input_0.mp4'']"
        "empty_world\<lparr>files := {''/tmp/job_input_0.mp4''}\<rparr>"]
    by simp
qed

subsection \<open>Unknown kinds\<close>

text \<open>
  Claim C7 says that a kind outside the four named ones gives a hard cut of length
  \<open>durA + durB\<close>. By \<open>other_kind_on_streams\<close> such a kind builds
  \<open>ffmpeg.concat(video1, video2, v=1, a=1)\<close>; with one video and one audio stream per
  segment the two operands form a single segment (\<open>n = 1\<close>), the first clip as its
  video and the second as its audio, so the handle lasts as long as the first clip
  alone. For the kind \<open>bounce\<close> and clips of 10 and 8 seconds: 10 seconds, not 18.
\<close>

theorem unknown_kind_single_segment:
  "apply_transition sample_env (ffmpeg_input ''a.mp4'') (ffmpeg_input ''b.mp4'')
     \<lparr>t_type = Some ''bounce'', t_duration = Some 1\<rparr> =
     Inr (PStream (Stream (Concat 1 1 1 (Stream (InputNode ''a.mp4'') None)
                                        (Stream (InputNode ''b.mp4'') None)) None))
   \<and> stream_len sample_len (Stream (Concat 1 1 1 (Stream (InputNode ''a.mp4'') None)
                                        (Stream (InputNode ''b.mp4'') None)) None) = Some 10
   \<and> sample_len ''a.mp4'' + sample_len ''b.mp4'' = 18"
  by (simp add: apply_transition_def ffmpeg_input_def sample_len_def)

subsection \<open>Clean-up of the downloaded inputs\<close>

text \<open>
  A run on one clip without transitions: the operation itself removes the concat list
  and then the downloaded input file.
\<close>

theorem inputs_removed_example:
  "removed (snd (process_video_concatenate sample_env [Some ''http://host/clip.mp4''] ''job'' None empty_world)) =
     [''/tmp/job_concat_list.txt'', ''/tmp/job_input_0.mp4'']"
  by (simp add: process_video_concatenate_def sample_env_def empty_world_def path_join_def
      str_nat.simps concatenate_simple_def run_def os_remove_def Let_def concat_line_def)

text \<open>
  Claim C8, amended: on every run of the top-level operation that returns the output
  path, the core itself deletes every downloaded input file. After the concatenation
  step has made its one engine invocation, the clean-up loop calls \<open>os.remove\<close> on each
  input file, in download order and as the last change of the state, so that none of
  them exists afterwards. Up to that loop the core has removed no file but its own
  concat list, and it writes no file but that list.
\<close>

theorem success_removes_inputs:
  assumes "process_video_concatenate e media_urls job_id transitions w = (Inr out, w')"
  shows "\<exists>input_files w1 w2 cmd.
      download_all e job_id 0 media_urls [] w = (Inr input_files, w1)
    \<and> (if truthy transitions
        then concatenate_with_transitions e input_files (path_join (storage e) (job_id @ ''.mp4'')) transitions w1
        else concatenate_simple e input_files (path_join (storage e) (job_id @ ''.mp4'')) job_id w1) = (Inr (), w2)
    \<and> runs w2 = runs w @ [cmd]
    \<and> removed w2 = removed w @
         (if truthy transitions then [] else [path_join (storage e) (job_id @ ''_concat_list.txt'')])
    \<and> map fst (written w2) = map fst (written w) @
         (if truthy transitions then [] else [path_join (storage e) (job_id @ ''_concat_list.txt'')])
    \<and> remove_all input_files w2 = (Inr (), w')
    \<and> runs w' = runs w2
    \<and> written w' = written w2
    \<and> removed w' = removed w2 @ input_files
    \<and> files w' = files w2 - set input_files"
proof -
  let ?out = "path_join (storage e) (job_id @ ''.mp4'')"
  let ?list = "path_join (storage e) (job_id @ ''_concat_list.txt'')"
  have cond: "(truthy transitions \<and> 0 < (case transitions of None \<Rightarrow> 0 | Some ts \<Rightarrow> length ts)) = truthy transitions"
    by (cases transitions) auto
  obtain r1 w1 where d: "download_all e job_id 0 media_urls [] w = (r1, w1)"
    by (cases "download_all e job_id 0 media_urls [] w")
  then obtain input_files where r1: "r1 = Inr input_files"
    using assms by (cases r1) (auto simp: process_video_concatenate_def Let_def)
  let ?step = "if truthy transitions
                 then concatenate_with_transitions e input_files ?out transitions w1
                 else concatenate_simple e input_files ?out job_id w1"
  obtain r2 w2 where s: "?step = (r2, w2)" by (cases ?step)
  then have r2: "r2 = Inr ()"
    using assms d r1 by (cases r2) (auto simp: process_video_concatenate_def Let_def cond)
  obtain r3 w3 where rm: "remove_all input_files w2 = (r3, w3)"
    by (cases "remove_all input_files w2")
  then have r3: "r3 = Inr ()"
    using assms d r1 s r2 by (cases r3) (auto simp: process_video_concatenate_def Let_def cond)
  have w': "w' = w3"
    using assms d r1 s r2 rm r3
    by (auto simp: process_video_concatenate_def Let_def cond split: if_splits)
  have f1: "runs w1 = runs w" "written w1 = written w" "removed w1 = removed w"
    using download_all_frame [OF d] by simp_all
  have step: "(\<exists>cmd. runs w2 = runs w1 @ [cmd])
    \<and> removed w2 = removed w1 @ (if truthy transitions then [] else [?list])
    \<and> map fst (written w2) = map fst (written w1) @ (if truthy transitions then [] else [?list])"
  proof (cases "truthy transitions")
    case True
    then have "concatenate_with_transitions e input_files ?out transitions w1 = (Inr (), w2)"
      using s r2 by simp
    then show ?thesis
      using True concatenate_with_transitions_ok by fastforce
  next
    case False
    then have "concatenate_simple e input_files ?out job_id w1 = (Inr (), w2)"
      using s r2 by simp
    then show ?thesis
      using False concatenate_simple_ok by fastforce
  qed
  then obtain cmd where c: "runs w2 = runs w1 @ [cmd]" by blast
  have f3: "runs w3 = runs w2" "written w3 = written w2"
    using remove_all_frame [OF rm] by simp_all
  have f4: "removed w3 = removed w2 @ input_files" "files w3 = files w2 - set input_files"
    using remove_all_ok rm r3 by blast+
  show ?thesis
    using d r1 s r2 rm r3 w' f1 step c f3 f4 by auto
qed

text \<open>The run on one clip without transitions, step by step.\<close>

theorem success_removes_inputs_witness:
  "process_video_concatenate sample_env [Some ''http://host/clip.mp4''] ''job'' None empty_world =
     (Inr ''/tmp/job.mp4'',
      \<lparr>files = {''/tmp/job.mp4''},
       runs = [ConcatCopy ''/tmp/job_concat_list.txt'' ''/tmp/job.mp4''],
       written = [(''/tmp/job_concat_list.txt'',
                   ''file '' @ [CHR 0x27] @ ''/tmp/job_input_0.mp4'' @ [CHR 0x27, CHR 0x0A])],
       removed = [''/tmp/job_concat_list.txt'', ''/tmp/job_input_0.mp4'']\<rparr>)
   \<and> download_all sample_env ''job'' 0 [Some ''http://host/clip.mp4''] [] empty_world =
       (Inr [''/tmp/job_input_0.mp4''], empty_world\<lparr>files := {''/tmp/job_input_0.mp4''}\<rparr>)
   \<and> concatenate_simple sample_env [''/tmp/job_input_0.mp4''] ''/tmp/job.mp4'' ''job''
       (empty_world\<lparr>files := {''/tmp/job_input_0.mp4''}\<rparr>) =
       (Inr (),
        \<lparr>files = {''/tmp/job.mp4'', ''/tmp/job_input_0.mp4''},
         runs = [ConcatCopy ''/tmp/job_concat_list.txt'' ''/tmp/job.mp4''],
         written = [(''/tmp/job_concat_list.txt'',
                     ''file '' @ [CHR 0x27] @ ''/tmp/job_input_0.mp4'' @ [CHR 0x27, CHR 0x0A])],
         removed = [''/tmp/job_concat_list.txt'']\<rparr>)
   \<and> remove_all [''/tmp/job_input_0.mp4'']
        \<lparr>files = {''/tmp/job.mp4'', ''/tmp/job_input_0.mp4''},
         runs = [ConcatCopy ''/tmp/job_concat_list.txt'' ''/tmp/job.mp4''],
         written = [(''/tmp/job_concat_list.txt'',
                     ''file '' @ [CHR 0x27] @ ''/tmp/job_input_0.mp4'' @ [CHR 0x27, CHR 0x0A])],
         removed = [''/tmp/job_concat_list.txt'']\<rparr> =
       (Inr (),
        \<lparr>files = {''/tmp/job.mp4''},
         runs = [ConcatCopy ''/tmp/job_concat_list.txt'' ''/tmp/job.mp4''],
         written = [(''/tmp/job_concat_list.txt'',
                     ''file '' @ [CHR 0x27] @ ''/tmp/job_input_0.mp4'' @ [CHR 0x27, CHR 0x0A])],
         removed = [''/tmp/job_concat_list.txt'', ''/tmp/job_input_0.mp4'']\<rparr>)"
proof -
  have h: "process_video_concatenate sample_env [Some ''http://host/clip.mp4''] ''job'' None empty_world =
     (Inr ''/tmp/job.mp4'',
      \<lparr>files = {''/tmp/job.mp4''},
       runs = [ConcatCopy ''/tmp/job_concat_list.txt'' ''/tmp/job.mp4''],
       written = [(''/tmp/job_concat_list.txt'',
                   ''file '' @ [CHR 0x27] @ ''/tmp/job_input_0.mp4'' @ [CHR 0x27, CHR 0x0A])],
       removed = [''/tmp/job_concat_list.txt'', ''/tmp/job_input_0.mp4'']\<rparr>)"
    by (simp add: process_video_concatenate_def sample_env_def empty_world_def path_join_def
        str_nat.simps concatenate_simple_def run_def os_remove_def Let_def concat_line_def)
       auto
  have d: "download_all sample_env ''job'' 0 [Some ''http://host/clip.mp4''] [] empty_world =
       (Inr [''/tmp/job_input_0.mp4''], empty_world\<lparr>files := {''/tmp/job_input_0.mp4''}\<rparr>)"
    by (simp add: sample_env_def empty_world_def path_join_def str_nat.simps)
  from success_removes_inputs [OF h]
  obtain input_files w1 w2 where
    s1: "download_all sample_env ''job'' 0 [Some ''http://host/clip.mp4''] [] empty_world = (Inr input_files, w1)"
    and s2: "concatenate_simple sample_env input_files (path_join (storage sample_env) (''job'' @ ''.mp4'')) ''job'' w1 = (Inr (), w2)"
    and s3: "remove_all input_files w2 =
       (Inr (),
        \<lparr>files = {''/tmp/job.mp4''},
         runs = [ConcatCopy ''/tmp/job_concat_list.txt'' ''/tmp/job.mp4''],
         written = [(''/tmp/job_concat_list.txt'',
                     ''file '' @ [CHR 0x27] @ ''/tmp/job_input_0.mp4'' @ [CHR 0x27, CHR 0x0A])],
         removed = [''/tmp/job_concat_list.txt'', ''/tmp/job_input_0.mp4'']\<rparr>)"
    by auto
  have i: "input_files = [''/tmp/job_input_0.mp4'']"
    and w1: "w1 = empty_world\<lparr>files := {''/tmp/job_input_0.mp4''}\<rparr>"
    using s1 d by simp_all
  have p: "path_join (storage sample_env) ''job.mp4'' = ''/tmp/job.mp4''"
    by (simp add: sample_env_def path_join_def)
  have c: "concatenate_simple sample_env [''/tmp/job_input_0.mp4''] ''/tmp/job.mp4'' ''job''
       (empty_world\<lparr>files := {''/tmp/job_input_0.mp4''}\<rparr>) =
       (Inr (),
        \<lparr>files = {''/tmp/job.mp4'', ''/tmp/job_input_0.mp4''},
         runs = [ConcatCopy ''/tmp/job_concat_list.txt'' ''/tmp/job.mp4''],
         written = [(''/tmp/job_concat_list.txt'',
                     ''file '' @ [CHR 0x27] @ ''/tmp/job_input_0.mp4'' @ [CHR 0x27, CHR 0x0A])],
         removed = [''/tmp/job_concat_list.txt'']\<rparr>)"
    by (simp add: sample_env_def empty_world_def path_join_def
        concatenate_simple_def run_def os_remove_def Let_def concat_line_def)
       auto
  have w2: "w2 = \<lparr>files = {''/tmp/job.mp4'', ''/tmp/job_input_0.mp4''},
         runs = [ConcatCopy ''/tmp/job_concat_list.txt'' ''/tmp/job.mp4''],
         written = [(''/tmp/job_concat_list.txt'',
                     ''file '' @ [CHR 0x27] @ ''/tmp/job_input_0.mp4'' @ [CHR 0x27, CHR 0x0A])],
         removed = [''/tmp/job_concat_list.txt'']\<rparr>"
    using s2 c by (simp add: i w1 p)
  show ?thesis
    using h d c s3 by (simp add: i w2)
qed

subsection \<open>Duration resolver off the file inputs\<close>



subsection \<open>Chains of three or more clips\<close>

text \<open>
  Three clips with the kinds \<open>none\<close> and \<open>crossfade\<close>: the first step returns a stream
  handle, the crossfade at the second gap is built on it, and the loop ends with a dict
  of two handles.
\<close>

theorem crossfade_at_second_gap_example:
  "bind (build_output_streams sample_env [''a.mp4'', ''b.mp4'', ''c.mp4'']
           (Some [\<lparr>t_type = Some ''none'', t_duration = Some 1\<rparr>,
                  \<lparr>t_type = Some ''crossfade'', t_duration = Some 1\<rparr>]))
     (\<lambda>r. Inr (length (output_handles r))) = Inr 2"
  by (simp add: build_output_streams_def loop_transition_def py_index_def apply_transition_def
      ffmpeg_input_def crossfade_transition_def video_def audio_def Let_def)

text \<open>
  Claim C10, amended: for three or more clips, when the transition selected at the first
  gap is a crossfade, fade, wipe or slide (and the first file can be probed where the
  builder probes it), the first step returns a dict and the builder at the second gap
  fails whatever its kind: a crossfade or fade with AttributeError on \<open>.video\<close>, any
  other kind with the TypeError of the concat node. No plan is built and the engine is
  not invoked.
\<close>

theorem chain_fails_after_dict:
  assumes "3 \<le> length input_files"
    and "loop_transition transitions 1 = Inr tr1"
    and "t_type tr1 \<in> {Some ''crossfade'', Some ''fade'', Some ''wipe'', Some ''slide''}"
    and "get_video_duration e (ffmpeg_input (input_files ! 0)) = Inr d0"
    and "loop_transition transitions 2 = Inr tr2"
  shows "build_output_streams e input_files transitions =
           Inl (if t_type tr2 \<in> {Some ''crossfade'', Some ''fade''} then AttributeError else TypeError)
       \<and> concatenate_with_transitions e input_files output_path transitions w =
           (Inl (if t_type tr2 \<in> {Some ''crossfade'', Some ''fade''} then AttributeError else TypeError), w)"
proof -
  obtain f0 f1 f2 fs where files: "input_files = f0 # f1 # f2 # fs"
    using assms(1) by (cases input_files; cases "tl input_files"; cases "tl (tl input_files)") auto
  obtain v a where first: "apply_transition e (ffmpeg_input f0) (ffmpeg_input f1) tr1 = Inr (PDict v a)"
    using four_kinds_on_inputs [OF assms(3), of e f0 d0 f1] assms(4) files by auto
  have "build_output_streams e input_files transitions =
          chain e transitions (PDict v a) 2 (map ffmpeg_input (f2 # fs))"
    using files assms(2) first by (simp add: build_output_streams_def numeral_2_eq_2)
  also have "\<dots> = Inl (if t_type tr2 \<in> {Some ''crossfade'', Some ''fade''} then AttributeError else TypeError)"
    using assms(5) by (simp add: apply_transition_dict)
  finally show ?thesis
    by (simp add: concatenate_with_transitions_def)
qed

theorem chain_fails_after_dict_witness:
  "3 \<le> length [''a.mp4'', ''b.mp4'', ''c.mp4'']
   \<and> loop_transition (Some [\<lparr>t_type = Some ''wipe'', t_duration = Some 1\<rparr>]) 1 =
       Inr \<lparr>t_type = Some ''wipe'', t_duration = Some 1\<rparr>
   \<and> Some ''wipe'' \<in> {Some ''crossfade'', Some ''fade'', Some ''wipe'', Some ''slide''}
   \<and> get_video_duration sample_env (ffmpeg_input ''a.mp4'') = Inr 10
   \<and> loop_transition (Some [\<lparr>t_type = Some ''wipe'', t_duration = Some 1\<rparr>]) 2 =
       Inr \<lparr>t_type = Some ''wipe'', t_duration = Some 1\<rparr>
   \<and> build_output_streams sample_env [''a.mp4'', ''b.mp4'', ''c.mp4'']
       (Some [\<lparr>t_type = Some ''wipe'', t_duration = Some 1\<rparr>]) = Inl TypeError
   \<and> concatenate_with_transitions sample_env [''a.mp4'', ''b.mp4'', ''c.mp4''] ''/tmp/job.mp4''
       (Some [\<lparr>t_type = Some ''wipe'', t_duration = Some 1\<rparr>]) empty_world = (Inl TypeError, empty_world)"
proof -
  let ?t = "\<lparr>t_type = Some ''wipe'', t_duration = Some 1\<rparr>"
  have a1: "3 \<le> length [''a.mp4'', ''b.mp4'', ''c.mp4'']"
    by simp
  have a2: "loop_transition (Some [?t]) 1 = Inr ?t"
    by (simp add: loop_transition_def py_index_def)
  have a3: "t_type ?t \<in> {Some ''crossfade'', Some ''fade'', Some ''wipe'', Some ''slide''}"
    by simp
  have a4: "get_video_duration sample_env (ffmpeg_input ([''a.mp4'', ''b.mp4'', ''c.mp4''] ! 0)) = Inr 10"
    by (simp add: sample_env_def)
  have a5: "loop_transition (Some [?t]) 2 = Inr ?t"
    by (simp add: loop_transition_def py_index_def)
  show ?thesis
    using a2 a4 a5 chain_fails_after_dict [OF a1 a2 a3 a4 a5, of "''/tmp/job.mp4''" empty_world]
    by simp
qed

end
